theory Spec2Isabelle
  imports Complex_Main "HOL-Library.Word"
begin

unbundle bit_operations_syntax

section \<open>Data model\<close>

type_synonym byte = "8 word"
type_synonym bytes = "byte list"

text \<open>
  The exceptions the modelled code can raise.  \<open>NotCachedException\<close> and
  \<open>AlreadyCachedException\<close> are the two classes of \<^verbatim>\<open>exceptions.py\<close>; the
  second carries the token and the data found in the cache (\<open>None\<close> in Python
  is \<open>None\<close> here).  The others are the built-in or library exceptions the
  modelled statements raise.
\<close>

datatype error =
    ZeroDivisionError
  | IndexError
  | ValueError
  | KeyError
  | HTTPError
  | ReError
  | NotCachedException string
  | AlreadyCachedException string "bytes option"

section \<open>session.py\<close>

subsection \<open>\<^verbatim>\<open>int_to_string\<close>\<close>

text \<open>
  The \<^verbatim>\<open>while number:\<close> loop.  It does not return for a negative number
  (Python's floor division keeps \<open>-1\<close> at \<open>-1\<close>) nor for a one-letter alphabet,
  so the loop is a partial function: \<open>None\<close> is "does not return".
  \<^verbatim>\<open>divmod\<close> by an empty alphabet raises \<open>ZeroDivisionError\<close>.
  HOL's \<open>div\<close> and \<open>mod\<close> on \<open>int\<close> round towards minus infinity, as Python's do.
\<close>

partial_function (option) int_to_string_loop ::
  "int \<Rightarrow> string \<Rightarrow> string \<Rightarrow> (error + string) option"
where
  "int_to_string_loop number alphabet output =
     (if number \<noteq> 0 then
        (if length alphabet = 0 then Some (Inl ZeroDivisionError)
         else int_to_string_loop (number div int (length alphabet)) alphabet
                (output @ [alphabet ! nat (number mod int (length alphabet))]))
      else Some (Inr output))"

declare int_to_string_loop.simps [code]

definition int_to_string :: "int \<Rightarrow> string \<Rightarrow> int option \<Rightarrow> (error + string) option" where
  "int_to_string number alphabet padding =
     (case int_to_string_loop number alphabet [] of
        None \<Rightarrow> None
      | Some (Inl e) \<Rightarrow> Some (Inl e)
      | Some (Inr output) \<Rightarrow>
          (if padding \<noteq> None \<and> padding \<noteq> Some 0 then
             (if alphabet = [] then Some (Inl IndexError)
              else Some (Inr (rev (output @
                     replicate (nat (max (the padding - int (length output)) 0)) (alphabet ! 0)))))
           else Some (Inr (rev output))))"

subsection \<open>\<^verbatim>\<open>Session\<close>\<close>

record Session =
  port :: int
  step :: int
  max_step :: int

text \<open>Python's \<^verbatim>\<open>int.bit_length()\<close>: the number of binary digits of the absolute value.\<close>

fun bit_length_nat :: "nat \<Rightarrow> nat" where
  "bit_length_nat n = (if n = 0 then 0 else Suc (bit_length_nat (n div 2)))"

definition bit_length :: "int \<Rightarrow> nat" where
  "bit_length x = bit_length_nat (nat \<bar>x\<bar>)"

text \<open>The alphabet \<^verbatim>\<open>shortuuid.get_alphabet()\<close> returns unless it has been changed.\<close>

definition shortuuid_alphabet :: string where
  "shortuuid_alphabet = ''23456789ABCDEFGHJKLMNPQRSTUVWXYZabcdefghijkmnopqrstuvwxyz''"

text \<open>
  The property \<^verbatim>\<open>Session.token\<close>.  \<^verbatim>\<open>shortuuid.uuid\<close> and the alphabet belong to
  the shortuuid package, so they are parameters: \<open>uuid\<close> is the (deterministic)
  name-based UUID function, \<open>alphabet\<close> the value of \<^verbatim>\<open>shortuuid.get_alphabet()\<close>.
  \<^verbatim>\<open>divmod(self.step, self.max_step)\<close> raises \<open>ZeroDivisionError\<close> when
  \<open>max_step\<close> is zero.
\<close>

definition token ::
  "(string \<Rightarrow> string) \<Rightarrow> string \<Rightarrow> 'a Session_scheme \<Rightarrow> (error + string) option" where
  "token uuid alphabet self =
     (if max_step self = 0 then Some (Inl ZeroDivisionError)
      else
        (let step' = step self mod max_step self;
             number = push_bit (bit_length (max_step self)) (port self) + step'
         in case int_to_string number alphabet None of
              None \<Rightarrow> None
            | Some (Inl e) \<Rightarrow> Some (Inl e)
            | Some (Inr s) \<Rightarrow> Some (Inr (uuid s))))"

text \<open>
  \<^verbatim>\<open>Session.__next__\<close>: the token is computed first; if that raises, the step
  is not incremented.  The result is the pair \<open>(step, token)\<close> and the
  advanced session.
\<close>

definition Session_next ::
  "(string \<Rightarrow> string) \<Rightarrow> string \<Rightarrow> Session \<Rightarrow> (error + ((int \<times> string) \<times> Session)) option" where
  "Session_next uuid alphabet self =
     (case token uuid alphabet self of
        None \<Rightarrow> None
      | Some (Inl e) \<Rightarrow> Some (Inl e)
      | Some (Inr tok) \<Rightarrow> Some (Inr ((step self, tok), self\<lparr>step := step self + 1\<rparr>)))"

subsection \<open>The positional encoding, as the specification words it\<close>

text \<open>
  "Express \<open>n\<close> in a fixed alphabet, most-significant-digit first": the digits
  of \<open>n\<close> in base \<open>b\<close>, most significant first, with no digit for zero.
\<close>

fun msd_digits :: "nat \<Rightarrow> nat \<Rightarrow> nat list" where
  "msd_digits b n =
     (if n = 0 \<or> b < 2 then [] else msd_digits b (n div b) @ [n mod b])"

definition alphabet_encoding :: "string \<Rightarrow> int \<Rightarrow> string" where
  "alphabet_encoding alphabet n = map (\<lambda>d. alphabet ! d) (msd_digits (length alphabet) (nat n))"

text \<open>The value of a digit string, most significant digit first.\<close>

definition horner :: "nat \<Rightarrow> nat list \<Rightarrow> nat" where
  "horner b ds = foldl (\<lambda>acc d. acc * b + d) 0 ds"

section \<open>Python built-ins and standard library used by cache.py\<close>

text \<open>\<^verbatim>\<open>xs[i:j]\<close>: negative indices count from the end, and both are clamped.\<close>

definition py_slice :: "'a list \<Rightarrow> int \<Rightarrow> int \<Rightarrow> 'a list" where
  "py_slice xs i j =
     (let n = int (length xs);
          lo = (if i < 0 then max (i + n) 0 else min i n);
          hi = (if j < 0 then max (j + n) 0 else min j n)
      in take (nat (hi - lo)) (drop (nat lo) xs))"

text \<open>\<^verbatim>\<open>needle in haystack\<close> on strings: the substring test.\<close>

fun str_in :: "string \<Rightarrow> string \<Rightarrow> bool" where
  "str_in needle [] = (needle = [])"
| "str_in needle (c # cs) = (take (length needle) (c # cs) = needle \<or> str_in needle cs)"

text \<open>\<^verbatim>\<open>s.split(sep)\<close> for a one-character separator, and \<^verbatim>\<open>s.split(sep, 1)\<close>.\<close>

fun split_on :: "char \<Rightarrow> string \<Rightarrow> string list" where
  "split_on sep [] = [[]]"
| "split_on sep (c # cs) =
     (if c = sep then [] # split_on sep cs
      else (case split_on sep cs of [] \<Rightarrow> [[c]] | w # ws \<Rightarrow> (c # w) # ws))"

definition split_first :: "char \<Rightarrow> string \<Rightarrow> string list" where
  "split_first sep s =
     (if sep \<in> set s then [takeWhile (\<lambda>c. c \<noteq> sep) s, tl (dropWhile (\<lambda>c. c \<noteq> sep) s)]
      else [s])"

text \<open>
  A Python \<^verbatim>\<open>dict\<close> with string keys is an association list in insertion
  order: \<^verbatim>\<open>d[k] = v\<close> overwrites in place or appends, \<^verbatim>\<open>dict(pairs)\<close> inserts
  the pairs one after the other, \<^verbatim>\<open>d[k]\<close> is \<open>map_of d k\<close> (\<open>None\<close> is
  \<open>KeyError\<close>).
\<close>

fun dict_set :: "'k \<Rightarrow> 'v \<Rightarrow> ('k \<times> 'v) list \<Rightarrow> ('k \<times> 'v) list" where
  "dict_set k v [] = [(k, v)]"
| "dict_set k v ((k', v') # d) =
     (if k' = k then (k', v) # d else (k', v') # dict_set k v d)"

definition dict :: "('k \<times> 'v) list \<Rightarrow> ('k \<times> 'v) list" where
  "dict pairs = foldl (\<lambda>d (k, v). dict_set k v d) [] pairs"

subsection \<open>\<^verbatim>\<open>urllib.parse.parse_qsl\<close>\<close>

text \<open>
  With its default arguments (\<^verbatim>\<open>keep_blank_values=False\<close>,
  \<^verbatim>\<open>strict_parsing=False\<close>, separator \<^verbatim>\<open>&\<close>): empty fields, fields
  with no \<^verbatim>\<open>=\<close> and fields with a blank value are dropped; in the others
  \<^verbatim>\<open>+\<close> becomes a space and the percent-escapes are decoded by
  \<^verbatim>\<open>unquote\<close>, which is a parameter here.
\<close>

definition replace_plus :: "string \<Rightarrow> string" where
  "replace_plus s = map (\<lambda>c. if c = CHR ''+'' then CHR '' '' else c) s"

fun parse_qsl_fields :: "(string \<Rightarrow> string) \<Rightarrow> string list \<Rightarrow> (string \<times> string) list" where
  "parse_qsl_fields unquote [] = []"
| "parse_qsl_fields unquote (name_value # rest) =
     (if name_value = [] then parse_qsl_fields unquote rest
      else
        (let nv = split_first CHR ''='' name_value in
         if length nv \<noteq> 2 then parse_qsl_fields unquote rest
         else if length (nv ! 1) \<noteq> 0 then
           (unquote (replace_plus (nv ! 0)), unquote (replace_plus (nv ! 1)))
             # parse_qsl_fields unquote rest
         else parse_qsl_fields unquote rest))"

definition parse_qsl :: "(string \<Rightarrow> string) \<Rightarrow> string \<Rightarrow> (string \<times> string) list" where
  "parse_qsl unquote qs = parse_qsl_fields unquote (split_on CHR ''&'' qs)"

subsection \<open>\<^verbatim>\<open>base64.urlsafe_b64encode\<close> and \<^verbatim>\<open>base64.urlsafe_b64decode\<close>\<close>

definition b64_table :: string where
  "b64_table = ''ABCDEFGHIJKLMNOPQRSTUVWXYZabcdefghijklmnopqrstuvwxyz0123456789+/''"

definition table_b2a_base64 :: "byte \<Rightarrow> char" where
  "table_b2a_base64 v = b64_table ! unat v"

text \<open>The four 6-bit groups of three bytes \<open>a\<close>, \<open>b\<close>, \<open>c\<close>.\<close>

definition sextet1 :: "byte \<Rightarrow> byte" where
  "sextet1 a = drop_bit 2 a"

definition sextet2 :: "byte \<Rightarrow> byte \<Rightarrow> byte" where
  "sextet2 a b = push_bit 4 (a AND 3) OR drop_bit 4 b"

definition sextet3 :: "byte \<Rightarrow> byte \<Rightarrow> byte" where
  "sextet3 b c = push_bit 2 (b AND 15) OR drop_bit 6 c"

definition sextet4 :: "byte \<Rightarrow> byte" where
  "sextet4 c = c AND 63"

text \<open>
  \<^verbatim>\<open>binascii.b2a_base64(s, newline=False)\<close>: four letters for three bytes,
  the last group padded with \<^verbatim>\<open>=\<close>.
\<close>

fun b2a_base64 :: "bytes \<Rightarrow> string" where
  "b2a_base64 [] = []"
| "b2a_base64 [a] =
     [table_b2a_base64 (sextet1 a), table_b2a_base64 (sextet2 a 0), CHR ''='', CHR ''='']"
| "b2a_base64 [a, b] =
     [table_b2a_base64 (sextet1 a), table_b2a_base64 (sextet2 a b),
      table_b2a_base64 (sextet3 b 0), CHR ''='']"
| "b2a_base64 (a # b # c # rest) =
     [table_b2a_base64 (sextet1 a), table_b2a_base64 (sextet2 a b),
      table_b2a_base64 (sextet3 b c), table_b2a_base64 (sextet4 c)] @ b2a_base64 rest"

definition urlsafe_encode_translation :: "char \<Rightarrow> char" where
  "urlsafe_encode_translation c =
     (if c = CHR ''+'' then CHR ''-'' else if c = CHR ''/'' then CHR ''_'' else c)"

definition urlsafe_b64encode :: "bytes \<Rightarrow> string" where
  "urlsafe_b64encode s = map urlsafe_encode_translation (b2a_base64 s)"

fun index_of :: "'a \<Rightarrow> 'a list \<Rightarrow> nat option" where
  "index_of x [] = None"
| "index_of x (y # ys) = (if x = y then Some 0 else map_option Suc (index_of x ys))"

definition table_a2b_base64 :: "char \<Rightarrow> byte option" where
  "table_a2b_base64 c = map_option of_nat (index_of c b64_table)"

text \<open>
  \<^verbatim>\<open>binascii.a2b_base64\<close> in its default, non-strict mode, as CPython's loop reads
  the input: letters outside the alphabet are skipped, a pad sequence that
  completes a group of four ends the input, and input that ends inside a
  group raises \<^verbatim>\<open>binascii.Error\<close>, a \<open>ValueError\<close>.
\<close>

fun a2b_base64 :: "string \<Rightarrow> nat \<Rightarrow> byte \<Rightarrow> nat \<Rightarrow> bytes \<Rightarrow> error + bytes" where
  "a2b_base64 [] quad_pos leftchar pads bin_data =
     (if quad_pos \<noteq> 0 then Inl ValueError else Inr bin_data)"
| "a2b_base64 (this_ch # ascii_data) quad_pos leftchar pads bin_data =
     (if this_ch = CHR ''='' then
        (if quad_pos \<ge> 2 \<and> quad_pos + (pads + 1) \<ge> 4 then Inr bin_data
         else a2b_base64 ascii_data quad_pos leftchar
                (if quad_pos \<ge> 2 then pads + 1 else pads) bin_data)
      else
        (case table_a2b_base64 this_ch of
           None \<Rightarrow> a2b_base64 ascii_data quad_pos leftchar pads bin_data
         | Some v \<Rightarrow>
             (if quad_pos = 0 then a2b_base64 ascii_data 1 v 0 bin_data
              else if quad_pos = 1 then
                a2b_base64 ascii_data 2 (v AND 0x0f) 0
                  (bin_data @ [push_bit 2 leftchar OR drop_bit 4 v])
              else if quad_pos = 2 then
                a2b_base64 ascii_data 3 (v AND 0x03) 0
                  (bin_data @ [push_bit 4 leftchar OR drop_bit 2 v])
              else
                a2b_base64 ascii_data 0 0 0 (bin_data @ [push_bit 6 leftchar OR v]))))"

definition urlsafe_decode_translation :: "char \<Rightarrow> char" where
  "urlsafe_decode_translation c =
     (if c = CHR ''-'' then CHR ''+'' else if c = CHR ''_'' then CHR ''/'' else c)"

text \<open>A \<^verbatim>\<open>str\<close> argument must be ASCII, else \<open>ValueError\<close>.\<close>

definition urlsafe_b64decode :: "string \<Rightarrow> error + bytes" where
  "urlsafe_b64decode s =
     (if list_ex (\<lambda>c. 127 < (of_char c :: nat)) s then Inl ValueError
      else a2b_base64 (map urlsafe_decode_translation s) 0 0 0 [])"

section \<open>cache.py\<close>

text \<open>
  \<^verbatim>\<open>urlparse\<close> splits a URL; the code reads and replaces the query only, so a
  parsed URL is its query and the rest.
\<close>

record ParseResult =
  location :: string
  query :: string

text \<open>
  The library functions whose result the extractor depends on, as parameters:
  \<^verbatim>\<open>re.finditer(pattern, text)\<close> gives the spans of the matches (\<open>None\<close>:
  the pattern does not compile, \<^verbatim>\<open>re.error\<close>), \<^verbatim>\<open>urlparse\<close> gives the parsed
  URL (\<open>None\<close>: \<open>ValueError\<close>), \<^verbatim>\<open>html.unescape\<close> and
  \<^verbatim>\<open>urllib.parse.unquote\<close> are total.
\<close>

record lib =
  re_finditer :: "string \<Rightarrow> string \<Rightarrow> (nat \<times> nat) list option"
  urlparse :: "string \<Rightarrow> ParseResult option"
  unescape :: "string \<Rightarrow> string"
  unquote :: "string \<Rightarrow> string"

text \<open>A \<^verbatim>\<open>requests\<close> response: the status, \<^verbatim>\<open>r.headers.get\<close> and \<^verbatim>\<open>r.text\<close>.\<close>

record response =
  status_code :: nat
  headers :: "string \<rightharpoonup> string"
  response_text :: string

text \<open>What \<^verbatim>\<open>requests.get\<close> is called with; \<^verbatim>\<open>urlencode\<close> of the arguments is left to the transport.\<close>

record request =
  request_location :: string
  request_args :: "(string \<times> string) list"
  request_headers :: "(string \<times> string) list"
  request_proxies :: "(string \<times> string) list"

definition DEFAULT_HEADERS :: "(string \<times> string) list" where
  "DEFAULT_HEADERS =
     [(''User-Agent'', ''Mozilla/5.0 (Macintosh; Intel Mac OS X 10_14_6) AppleWebKit/605.1.15 (KHTML, like Gecko) Version/13.0.1 Safari/605.1.15''),
      (''Accept-Encoding'', ''gzip, deflate''),
      (''Accept'', ''*/*''),
      (''Connection'', ''keep-alive'')]"

text \<open>The fields of \<^verbatim>\<open>Cache\<close>; \<open>cache_proxy\<close> is the netloc of the parsed proxy URL.\<close>

record Cache =
  cache_url :: ParseResult
  cache_key :: string
  cache_slot :: string
  cache_proxy :: "string option"

definition proxies :: "Cache \<Rightarrow> (string \<times> string) list" where
  "proxies self =
     (case cache_proxy self of
        None \<Rightarrow> []
      | Some netloc \<Rightarrow> [(''http'', netloc), (''https'', netloc)])"

text \<open>\<^verbatim>\<open>r.raise_for_status()\<close> raises for the statuses 400 to 599.\<close>

definition raise_for_status :: "response \<Rightarrow> error + unit" where
  "raise_for_status r =
     (if 400 \<le> status_code r \<and> status_code r < 600 then Inl HTTPError else Inr ())"

text \<open>\<^verbatim>\<open>"HIT" in r.headers.get("X-Cache-Status", "MISS")\<close>\<close>

definition cache_status_hit :: "response \<Rightarrow> bool" where
  "cache_status_hit r =
     str_in ''HIT'' (case headers r ''X-Cache-Status'' of None \<Rightarrow> ''MISS'' | Some v \<Rightarrow> v)"

subsection \<open>\<^verbatim>\<open>Cache._extract\<close>\<close>

definition extract_pattern :: "string \<Rightarrow> string" where
  "extract_pattern key = ''No results for (.*)'' @ key @ ''(.*)</code>''"

text \<open>
  The body of the \<^verbatim>\<open>try\<close>: the decoded data, or the exception raised
  (\<open>ValueError\<close> from \<^verbatim>\<open>urlparse\<close> or from the base64 decoder, \<open>KeyError\<close>
  when the slot is not among the query arguments).
\<close>

definition extract_try :: "lib \<Rightarrow> Cache \<Rightarrow> string \<Rightarrow> error + bytes" where
  "extract_try l self snip =
     (case urlparse l snip of
        None \<Rightarrow> Inl ValueError
      | Some u \<Rightarrow>
          (let t = dict (parse_qsl (unquote l) (unescape l (query u))) in
           case map_of t (cache_slot self) of
             None \<Rightarrow> Inl KeyError
           | Some m \<Rightarrow> urlsafe_b64decode m))"

text \<open>
  The loop over the matches: the first match whose \<^verbatim>\<open>try\<close> succeeds
  returns; \<open>ValueError\<close> and \<open>KeyError\<close> are logged and the next match is
  tried; when the matches are used up the function ends without a
  \<^verbatim>\<open>return\<close>, which is \<open>None\<close>.  The two exception classes of this package
  derive from \<open>KeyError\<close>.
\<close>

fun is_KeyError :: "error \<Rightarrow> bool" where
  "is_KeyError KeyError = True"
| "is_KeyError (NotCachedException t) = True"
| "is_KeyError (AlreadyCachedException t d) = True"
| "is_KeyError e = False"

fun extract_matches :: "lib \<Rightarrow> Cache \<Rightarrow> string \<Rightarrow> (nat \<times> nat) list \<Rightarrow> error + bytes option" where
  "extract_matches l self txt [] = Inr None"
| "extract_matches l self txt ((a, b) # matches) =
     (let snip = py_slice txt (int a + 35) (int b - 7) in
      case extract_try l self snip of
        Inr data \<Rightarrow> Inr (Some data)
      | Inl e \<Rightarrow>
          (if e = ValueError \<or> is_KeyError e then extract_matches l self txt matches
           else Inl e))"

definition Cache_extract :: "lib \<Rightarrow> Cache \<Rightarrow> string \<Rightarrow> response \<Rightarrow> error + bytes option" where
  "Cache_extract l self key r =
     (case re_finditer l (extract_pattern key) (response_text r) of
        None \<Rightarrow> Inl ReError
      | Some matches \<Rightarrow> extract_matches l self (response_text r) matches)"

subsection \<open>\<^verbatim>\<open>Cache.__getitem__\<close> and \<^verbatim>\<open>Cache.__setitem__\<close>\<close>

text \<open>
  Each method builds its request, sends it, and classifies the response.
  The transport \<open>http_get\<close> is a parameter: from the state of the world and
  the request it gives the response, or the exception \<^verbatim>\<open>requests.get\<close>
  raises, and the new state of the world (the remote cache included).
\<close>

definition getitem_request :: "lib \<Rightarrow> Cache \<Rightarrow> string \<Rightarrow> request" where
  "getitem_request l self key =
     (let d = dict (parse_qsl (unquote l) (query (cache_url self)));
          d = dict_set (cache_key self) key d
      in \<lparr>request_location = location (cache_url self), request_args = d,
          request_headers = DEFAULT_HEADERS, request_proxies = proxies self\<rparr>)"

definition getitem_response :: "lib \<Rightarrow> Cache \<Rightarrow> string \<Rightarrow> response \<Rightarrow> error + bytes option" where
  "getitem_response l self key r =
     (case raise_for_status r of
        Inl e \<Rightarrow> Inl e
      | Inr _ \<Rightarrow>
          (if \<not> cache_status_hit r then Inl (NotCachedException key)
           else Cache_extract l self key r))"

definition Cache_getitem ::
  "('w \<Rightarrow> request \<Rightarrow> (error + response) \<times> 'w) \<Rightarrow> lib \<Rightarrow> Cache \<Rightarrow>
   string \<Rightarrow> 'w \<Rightarrow> (error + bytes option) \<times> 'w" where
  "Cache_getitem http_get l self key w =
     (case http_get w (getitem_request l self key) of
        (Inl e, w') \<Rightarrow> (Inl e, w')
      | (Inr r, w') \<Rightarrow> (getitem_response l self key r, w'))"

definition setitem_request :: "lib \<Rightarrow> Cache \<Rightarrow> string \<Rightarrow> bytes \<Rightarrow> request" where
  "setitem_request l self key val =
     (let d = dict (parse_qsl (unquote l) (query (cache_url self)));
          d = dict_set (cache_key self) key d;
          d = dict_set (cache_slot self) (urlsafe_b64encode val) d
      in \<lparr>request_location = location (cache_url self), request_args = d,
          request_headers = DEFAULT_HEADERS, request_proxies = proxies self\<rparr>)"

definition setitem_response :: "lib \<Rightarrow> Cache \<Rightarrow> string \<Rightarrow> response \<Rightarrow> error + unit" where
  "setitem_response l self key r =
     (case raise_for_status r of
        Inl e \<Rightarrow> Inl e
      | Inr _ \<Rightarrow>
          (if cache_status_hit r then
             (case Cache_extract l self key r of
                Inl e \<Rightarrow> Inl e
              | Inr data \<Rightarrow> Inl (AlreadyCachedException key data))
           else Inr ()))"

definition Cache_setitem ::
  "('w \<Rightarrow> request \<Rightarrow> (error + response) \<times> 'w) \<Rightarrow> lib \<Rightarrow> Cache \<Rightarrow>
   string \<Rightarrow> bytes \<Rightarrow> 'w \<Rightarrow> (error + unit) \<times> 'w" where
  "Cache_setitem http_get l self key val w =
     (case http_get w (setitem_request l self key val) of
        (Inl e, w') \<Rightarrow> (Inl e, w')
      | (Inr r, w') \<Rightarrow> (setitem_response l self key r, w'))"

subsection \<open>Extraction failure, as the specification words it\<close>

text \<open>
  "Extraction failures (regex miss, malformed URL, missing parameter, bad
  base64)": a reflected snippet is unparseable when \<^verbatim>\<open>urlparse\<close> rejects it,
  or its query has no data parameter, or the parameter is not base64.
\<close>

definition unparseable :: "lib \<Rightarrow> Cache \<Rightarrow> string \<Rightarrow> bool" where
  "unparseable l self snip =
     (case urlparse l snip of
        None \<Rightarrow> True
      | Some u \<Rightarrow>
          (case map_of (dict (parse_qsl (unquote l) (unescape l (query u)))) (cache_slot self) of
             None \<Rightarrow> True
           | Some m \<Rightarrow> urlsafe_b64decode m = Inl ValueError))"

section \<open>io.py\<close>

text \<open>
  The reader and the writer work on a cache object and a \<^verbatim>\<open>Session\<close> that
  they share.  The cache is any object with \<^verbatim>\<open>cache[token]\<close> and
  \<^verbatim>\<open>cache[token] = chunk\<close>, so its two operations are parameters: from the
  token (and the chunk) and the state behind the cache they give the result,
  or the exception raised, and the new state.  \<open>Cache_getitem\<close> and
  \<open>Cache_setitem\<close> above, with a transport, are of this shape.

  The state: the session, the state behind the cache, the state the
  writer's consumers act on, and the lines \<^verbatim>\<open>Wrote data\<close> the writer has
  logged (the step and the chunk of every successful set).
\<close>

record ('c, 'u) state =
  session :: Session
  cache :: 'c
  heard :: 'u
  wrote :: "(int \<times> bytes) list"

text \<open>The destination of \<^verbatim>\<open>readinto\<close>: a \<^verbatim>\<open>bytearray\<close>, a \<^verbatim>\<open>memoryview\<close>, or anything else.\<close>

datatype buffer = Bytearray bytes | Memoryview bytes | OtherBuffer

text \<open>\<^verbatim>\<open>if data:\<close> holds for bytes that are not empty; \<open>None\<close> and \<^verbatim>\<open>b""\<close> are false.\<close>

definition truthy :: "bytes option \<Rightarrow> bool" where
  "truthy data = (case data of None \<Rightarrow> False | Some d \<Rightarrow> d \<noteq> [])"

fun is_NotCachedException :: "error \<Rightarrow> bool" where
  "is_NotCachedException (NotCachedException t) = True"
| "is_NotCachedException e = False"


subsection \<open>\<^verbatim>\<open>CacheReader.readinto\<close>\<close>

text \<open>
  The \<^verbatim>\<open>for step, token in self.session\<close> loop.  Each round first takes the
  next pair from the session, which advances it, then reads the cache.  The
  result is the value returned or the exception raised, with the buffer and
  the state as the call leaves them; \<open>None\<close> is a loop that does not end.
  A \<^verbatim>\<open>memoryview\<close> keeps its length: \<^verbatim>\<open>b[:l] = data\<close> overwrites its first
  \<open>l\<close> bytes.
\<close>

partial_function (option) readinto ::
  "(string \<Rightarrow> string) \<Rightarrow> string \<Rightarrow> (string \<Rightarrow> 'c \<Rightarrow> (error + bytes option) \<times> 'c) \<Rightarrow>
   buffer \<Rightarrow> ('c, 'u) state \<Rightarrow> ((error + nat) \<times> buffer \<times> ('c, 'u) state) option"
where
  "readinto uuid alphabet cache_getitem b self =
     (case Session_next uuid alphabet (session self) of
        None \<Rightarrow> None
      | Some (Inl e) \<Rightarrow> Some (Inl e, b, self)
      | Some (Inr ((stp, tok), session')) \<Rightarrow>
          (case cache_getitem tok (cache self) of
             (Inl e, cache') \<Rightarrow>
               (if is_NotCachedException e
                then Some (Inr 0, b, self\<lparr>session := session', cache := cache'\<rparr>)
                else Some (Inl e, b, self\<lparr>session := session', cache := cache'\<rparr>))
           | (Inr data, cache') \<Rightarrow>
               (if truthy data then
                  (case b of
                     Bytearray old \<Rightarrow>
                       Some (Inr (length (the data)), Bytearray (the data),
                             self\<lparr>session := session', cache := cache'\<rparr>)
                   | Memoryview old \<Rightarrow>
                       (if length (the data) > length old then
                          Some (Inr 0, b,
                                self\<lparr>session := session'\<lparr>step := step session' - 1\<rparr>,
                                     cache := cache'\<rparr>)
                        else
                          Some (Inr (length (the data)),
                                Memoryview (the data @ drop (length (the data)) old),
                                self\<lparr>session := session', cache := cache'\<rparr>))
                   | OtherBuffer \<Rightarrow>
                       Some (Inl ValueError, b, self\<lparr>session := session', cache := cache'\<rparr>))
                else
                  readinto uuid alphabet cache_getitem b
                    (self\<lparr>session := session', cache := cache'\<rparr>))))"

declare readinto.simps [code]

subsection \<open>\<^verbatim>\<open>CacheWriter.write\<close>\<close>

text \<open>
  \<^verbatim>\<open>range(start, stop, step)\<close> for a step that is not zero, and the chunks
  \<^verbatim>\<open>data[i:i+chunk_size]\<close> for \<open>i\<close> in \<^verbatim>\<open>range(0, len(data), chunk_size)\<close>.
\<close>

definition py_range :: "int \<Rightarrow> int \<Rightarrow> int \<Rightarrow> int list" where
  "py_range start stop stp =
     (if stp > 0 then
        map (\<lambda>k. start + int k * stp) [0..<nat ((stop - start + stp - 1) div stp)]
      else if stp < 0 then
        map (\<lambda>k. start + int k * stp) [0..<nat ((start - stop - stp - 1) div (- stp))]
      else [])"

definition chunks_of :: "int \<Rightarrow> bytes \<Rightarrow> bytes list" where
  "chunks_of chunk_size data =
     map (\<lambda>i. py_slice data i (i + chunk_size)) (py_range 0 (int (length data)) chunk_size)"

text \<open>
  \<^verbatim>\<open>for func in self._consumers: func(e.data)\<close>: a consumer acts on the state
  \<open>'u\<close> (the consumer of \<^verbatim>\<open>CacheIO\<close> appends the data to a list); a consumer
  that raises is outside the model.
\<close>

definition notify :: "(bytes \<Rightarrow> 'u \<Rightarrow> 'u) list \<Rightarrow> bytes \<Rightarrow> 'u \<Rightarrow> 'u" where
  "notify consumers data u = fold (\<lambda>func. func data) consumers u"

text \<open>
  The inner loop, for one chunk: it takes the next pair from the session and
  sets the chunk at the token; a set that returns ends the loop, a set that
  raises \<open>AlreadyCachedException\<close> hands the data found, if any, to the
  consumers and goes round again; any other exception leaves the call.  The
  result is the exception raised, if any, and the state.
\<close>

partial_function (option) write_chunk ::
  "(string \<Rightarrow> string) \<Rightarrow> string \<Rightarrow> (string \<Rightarrow> bytes \<Rightarrow> 'c \<Rightarrow> (error + unit) \<times> 'c) \<Rightarrow>
   (bytes \<Rightarrow> 'u \<Rightarrow> 'u) list \<Rightarrow> bytes \<Rightarrow> ('c, 'u) state \<Rightarrow>
   (error option \<times> ('c, 'u) state) option"
where
  "write_chunk uuid alphabet cache_setitem consumers chunk self =
     (case Session_next uuid alphabet (session self) of
        None \<Rightarrow> None
      | Some (Inl e) \<Rightarrow> Some (Some e, self)
      | Some (Inr ((stp, tok), session')) \<Rightarrow>
          (case cache_setitem tok chunk (cache self) of
             (Inr _, cache') \<Rightarrow>
               Some (None, self\<lparr>session := session', cache := cache',
                                wrote := wrote self @ [(stp, chunk)]\<rparr>)
           | (Inl e, cache') \<Rightarrow>
               (case e of
                  AlreadyCachedException t data \<Rightarrow>
                    write_chunk uuid alphabet cache_setitem consumers chunk
                      (self\<lparr>session := session', cache := cache',
                            heard := (if truthy data then notify consumers (the data) (heard self)
                                      else heard self)\<rparr>)
                | _ \<Rightarrow> Some (Some e, self\<lparr>session := session', cache := cache'\<rparr>))))"

declare write_chunk.simps [code]

text \<open>The outer loop over the chunks.\<close>

fun write_chunks ::
  "(string \<Rightarrow> string) \<Rightarrow> string \<Rightarrow> (string \<Rightarrow> bytes \<Rightarrow> 'c \<Rightarrow> (error + unit) \<times> 'c) \<Rightarrow>
   (bytes \<Rightarrow> 'u \<Rightarrow> 'u) list \<Rightarrow> bytes list \<Rightarrow> ('c, 'u) state \<Rightarrow>
   (error option \<times> ('c, 'u) state) option"
where
  "write_chunks uuid alphabet cache_setitem consumers [] self = Some (None, self)"
| "write_chunks uuid alphabet cache_setitem consumers (chunk # rest) self =
     (case write_chunk uuid alphabet cache_setitem consumers chunk self of
        None \<Rightarrow> None
      | Some (Some e, self') \<Rightarrow> Some (Some e, self')
      | Some (None, self') \<Rightarrow> write_chunks uuid alphabet cache_setitem consumers rest self')"

text \<open>
  \<^verbatim>\<open>CacheWriter.write\<close>, with the writer's \<open>chunk_size\<close> and consumers as
  arguments.  \<^verbatim>\<open>range\<close> raises \<open>ValueError\<close> for a step of zero.
\<close>

definition CacheWriter_write ::
  "(string \<Rightarrow> string) \<Rightarrow> string \<Rightarrow> (string \<Rightarrow> bytes \<Rightarrow> 'c \<Rightarrow> (error + unit) \<times> 'c) \<Rightarrow>
   (bytes \<Rightarrow> 'u \<Rightarrow> 'u) list \<Rightarrow> int \<Rightarrow> bytes \<Rightarrow> ('c, 'u) state \<Rightarrow>
   ((error + nat) \<times> ('c, 'u) state) option"
where
  "CacheWriter_write uuid alphabet cache_setitem consumers chunk_size data self =
     (if chunk_size = 0 then Some (Inl ValueError, self)
      else
        (case write_chunks uuid alphabet cache_setitem consumers
                (chunks_of chunk_size data) self of
           None \<Rightarrow> None
         | Some (Some e, self') \<Rightarrow> Some (Inl e, self')
         | Some (None, self') \<Rightarrow> Some (Inr (length data), self')))"

section \<open>A stand-in environment\<close>

text \<open>
  The theorems below hold for every library environment, every transport and
  every cache.  To instantiate them at concrete inputs this section gives one
  small environment: a server that reflects the requested URL into the body
  \<^verbatim>\<open>No results for <code id=reflection>URL</code>\<close> and caches it under the
  token, and stand-ins for the library functions that agree with the real
  ones on such bodies (a body that is one line, a query whose only escape
  is \<^verbatim>\<open>%3D\<close>).
\<close>

definition stub_finditer :: "string \<Rightarrow> string \<Rightarrow> (nat \<times> nat) list option" where
  "stub_finditer pattern txt =
     (let key = py_slice pattern 19 (- 11) in
      if take 15 txt = ''No results for ''
         \<and> py_slice txt (- 7) (int (length txt)) = ''</code>''
         \<and> str_in key (py_slice txt 15 (- 7))
      then Some [(0, length txt)] else Some [])"

definition stub_urlparse :: "string \<Rightarrow> ParseResult option" where
  "stub_urlparse s =
     Some \<lparr>location = takeWhile (\<lambda>c. c \<noteq> CHR ''?'') s,
           query = tl (dropWhile (\<lambda>c. c \<noteq> CHR ''?'') s)\<rparr>"

fun stub_unquote :: "string \<Rightarrow> string" where
  "stub_unquote (c1 # c2 # c3 # s) =
     (if [c1, c2, c3] = ''%3D'' then CHR ''='' # stub_unquote s else c1 # stub_unquote (c2 # c3 # s))"
| "stub_unquote s = s"

definition stub_lib :: lib where
  "stub_lib = \<lparr>re_finditer = stub_finditer, urlparse = stub_urlparse,
                unescape = (\<lambda>s. s), unquote = stub_unquote\<rparr>"

definition stub_quote :: "string \<Rightarrow> string" where
  "stub_quote s = concat (map (\<lambda>c. if c = CHR ''='' then ''%3D'' else [c]) s)"

fun stub_urlencode :: "(string \<times> string) list \<Rightarrow> string" where
  "stub_urlencode [] = []"
| "stub_urlencode [(k, v)] = stub_quote k @ ''='' @ stub_quote v"
| "stub_urlencode ((k, v) # d) = stub_quote k @ ''='' @ stub_quote v @ ''&'' @ stub_urlencode d"

definition stub_reflect :: "request \<Rightarrow> string" where
  "stub_reflect rq =
     ''No results for <code id=reflection>'' @ request_location rq @ ''?''
       @ stub_urlencode (request_args rq) @ ''</code>''"

definition stub_cache :: Cache where
  "stub_cache = \<lparr>cache_url = \<lparr>location = ''https://webcachetunneling.com/'', query = ''''\<rparr>,
                  cache_key = ''q'', cache_slot = ''p'', cache_proxy = None\<rparr>"

definition stub_response :: "string \<Rightarrow> string \<Rightarrow> response" where
  "stub_response cache_status body =
     \<lparr>status_code = 200, headers = [''X-Cache-Status'' \<mapsto> cache_status],
      response_text = body\<rparr>"

definition stub_response_no_header :: "string \<Rightarrow> response" where
  "stub_response_no_header body =
     \<lparr>status_code = 200, headers = Map.empty, response_text = body\<rparr>"

text \<open>
  The server: the world is the list of the tokens cached so far with their
  bodies.  A request for a token that is cached is answered HIT with the
  cached body; any other request is answered MISS with the reflection of its
  own URL, which the server then caches under the token.
\<close>

definition stub_http_get ::
  "(string \<times> string) list \<Rightarrow> request \<Rightarrow> (error + response) \<times> (string \<times> string) list" where
  "stub_http_get w rq =
     (case map_of (request_args rq) ''q'' of
        None \<Rightarrow> (Inr (stub_response ''MISS'' (stub_reflect rq)), w)
      | Some t \<Rightarrow>
          (case map_of w t of
             Some body \<Rightarrow> (Inr (stub_response ''HIT'' body), w)
           | None \<Rightarrow>
               (Inr (stub_response ''MISS'' (stub_reflect rq)), w @ [(t, stub_reflect rq)])))"

text \<open>The name-based UUID function is replaced by the identity.\<close>

definition stub_uuid :: "string \<Rightarrow> string" where
  "stub_uuid name = name"

text \<open>
  Caches for the reader: one that misses every token, and one that holds a
  list of tokens with their payloads and misses the others.
\<close>

definition miss_getitem :: "string \<Rightarrow> unit \<Rightarrow> (error + bytes option) \<times> unit" where
  "miss_getitem tok c = (Inl (NotCachedException tok), c)"

definition table_getitem ::
  "string \<Rightarrow> (string \<times> bytes option) list \<Rightarrow>
   (error + bytes option) \<times> (string \<times> bytes option) list" where
  "table_getitem tok c =
     (case map_of c tok of
        None \<Rightarrow> (Inl (NotCachedException tok), c)
      | Some data \<Rightarrow> (Inr data, c))"

text \<open>
  A backend for the writer that records its calls: its state is the list of
  collisions still to come and the sizes of the payloads set so far.  A set
  collides with the next pending collision, if any, and succeeds otherwise.
\<close>

definition script_setitem ::
  "string \<Rightarrow> bytes \<Rightarrow> bytes option list \<times> nat list \<Rightarrow>
   (error + unit) \<times> bytes option list \<times> nat list" where
  "script_setitem tok val c =
     (case fst c of
        [] \<Rightarrow> (Inr (), ([], snd c @ [length val]))
      | found # pending \<Rightarrow> (Inl (AlreadyCachedException tok found), (pending, snd c)))"

text \<open>A consumer that appends what it is given to a list, as the consumer of \<^verbatim>\<open>CacheIO\<close> does.\<close>

definition append_consumer :: "bytes \<Rightarrow> bytes list \<Rightarrow> bytes list" where
  "append_consumer data buf = buf @ [data]"

section \<open>Session: the token derivation\<close>

declare msd_digits.simps [simp del]
declare bit_length_nat.simps [simp del]

lemma msd_digits_step:
  "n \<noteq> 0 \<Longrightarrow> 2 \<le> b \<Longrightarrow> msd_digits b n = msd_digits b (n div b) @ [n mod b]"
  by (subst msd_digits.simps) simp

lemma int_to_string_loop_nonneg:
  "2 \<le> length alphabet \<Longrightarrow>
   int_to_string_loop (int n) alphabet out =
     Some (Inr (out @ rev (map (\<lambda>d. alphabet ! d) (msd_digits (length alphabet) n))))"
proof (induction n arbitrary: out rule: less_induct)
  case (less n)
  show ?case
  proof (cases "n = 0")
    case True
    then show ?thesis
      by (subst int_to_string_loop.simps) (simp add: msd_digits.simps)
  next
    case False
    with less.prems have lt: "n div length alphabet < n" by simp
    have d: "int n div int (length alphabet) = int (n div length alphabet)"
      by (simp add: zdiv_int)
    have m: "nat (int n mod int (length alphabet)) = n mod length alphabet"
      by (metis nat_int of_nat_mod)
    have a: "alphabet \<noteq> []" using less.prems by auto
    show ?thesis
      using False a
      by (subst int_to_string_loop.simps)
         (simp add: d m msd_digits_step [OF False less.prems] less.IH [OF lt less.prems])
  qed
qed

lemma int_to_string_nonneg:
  "2 \<le> length alphabet \<Longrightarrow> 0 \<le> n \<Longrightarrow>
   int_to_string n alphabet None = Some (Inr (alphabet_encoding alphabet n))"
  using int_to_string_loop_nonneg [of alphabet "nat n" "[]"]
  by (simp add: int_to_string_def alphabet_encoding_def rev_map)

text \<open>
  The digit list is the positional representation of \<open>n\<close>: its value is \<open>n\<close>
  and every digit is below the base.
\<close>

lemma horner_snoc: "horner b (ds @ [d]) = horner b ds * b + d"
  by (simp add: horner_def)

lemma horner_msd_digits: "2 \<le> b \<Longrightarrow> horner b (msd_digits b n) = n"
proof (induction n rule: less_induct)
  case (less n)
  show ?case
  proof (cases "n = 0")
    case True
    then show ?thesis by (simp add: msd_digits.simps horner_def)
  next
    case False
    with less.prems have lt: "n div b < n" by simp
    show ?thesis
      by (simp add: msd_digits_step [OF False less.prems] horner_snoc less.IH [OF lt less.prems])
  qed
qed

lemma msd_digits_bound: "2 \<le> b \<Longrightarrow> d \<in> set (msd_digits b n) \<Longrightarrow> d < b"
proof (induction n rule: less_induct)
  case (less n)
  show ?case
  proof (cases "n = 0")
    case True
    with less.prems show ?thesis by (simp add: msd_digits.simps)
  next
    case False
    with less.prems have lt: "n div b < n" by simp
    show ?thesis
      using less.prems less.IH [OF lt] by (auto simp: msd_digits_step [OF False less.prems(1)])
  qed
qed

text \<open>\<open>bit_length\<close> is the bit length: \<open>2 ^ (k - 1) \<le> n < 2 ^ k\<close>.\<close>

lemma bit_length_nat_bounds:
  "0 < n \<Longrightarrow> 2 ^ (bit_length_nat n - 1) \<le> n \<and> n < 2 ^ bit_length_nat n"
proof (induction n rule: less_induct)
  case (less n)
  show ?case
  proof (cases "n = 1")
    case True
    then show ?thesis by (simp add: bit_length_nat.simps)
  next
    case False
    with less.prems have h: "0 < n div 2" "n div 2 < n" by auto
    define k where "k = bit_length_nat (n div 2)"
    have e: "bit_length_nat n = Suc k"
      using less.prems unfolding k_def by (subst bit_length_nat.simps) simp
    have p: "0 < k"
      using h(1) unfolding k_def by (subst bit_length_nat.simps) simp
    then have q: "(2::nat) ^ k = 2 * 2 ^ (k - 1)" by (cases k) auto
    from less.IH [OF h(2) h(1)] have "2 ^ (k - 1) \<le> n div 2" "n div 2 < 2 ^ k"
      unfolding k_def by auto
    with q show ?thesis by (simp add: e) arith
  qed
qed

lemma token_value:
  assumes "0 \<le> port s" and "0 < max_step s" and "2 \<le> length alphabet"
  shows "token uuid alphabet s =
        Some (Inr (uuid (alphabet_encoding alphabet
          (push_bit (bit_length (max_step s)) (port s) + step s mod max_step s))))"
proof -
  from assms have "0 \<le> step s mod max_step s" by simp
  moreover from assms have "0 \<le> push_bit (bit_length (max_step s)) (port s)"
    by (simp add: push_bit_eq_mult)
  ultimately have "0 \<le> push_bit (bit_length (max_step s)) (port s) + step s mod max_step s"
    by linarith
  with assms show ?thesis
    by (simp add: token_def Let_def int_to_string_nonneg)
qed

lemma Session_next_token:
  "token uuid alphabet s = Some (Inr tok) \<Longrightarrow>
   Session_next uuid alphabet s = Some (Inr ((step s, tok), s\<lparr>step := step s + 1\<rparr>))"
  by (simp add: Session_next_def)

text \<open>
  C1.  For a channel \<open>port \<ge> 0\<close> and a modulus \<open>max_step > 0\<close> (and an alphabet
  of at least two letters, as shortuuid's is), the token of a session at any
  step is the shortuuid of what \<^verbatim>\<open>int_to_string\<close> returns for
  \<open>n = (port << bit_length max_step) + (step mod max_step)\<close>, and that is the
  encoding of \<open>n\<close> in the alphabet, most significant digit first: the digits
  have the value \<open>n\<close>.  The token is a function of \<open>(port, max_step, step)\<close>
  only, so two sessions that agree on them have equal tokens, and the token
  at \<open>step\<close> is the token at \<open>step mod max_step\<close>.
\<close>

theorem token_derivation:
  "(0 \<le> port s \<and> 0 < max_step s \<and> 2 \<le> length alphabet \<longrightarrow>
      token uuid alphabet s =
        Some (Inr (uuid (alphabet_encoding alphabet
          (push_bit (bit_length (max_step s)) (port s) + step s mod max_step s))))
      \<and> int_to_string (push_bit (bit_length (max_step s)) (port s) + step s mod max_step s)
            alphabet None =
        Some (Inr (alphabet_encoding alphabet
          (push_bit (bit_length (max_step s)) (port s) + step s mod max_step s)))
      \<and> int (horner (length alphabet) (msd_digits (length alphabet)
            (nat (push_bit (bit_length (max_step s)) (port s) + step s mod max_step s))))
          = push_bit (bit_length (max_step s)) (port s) + step s mod max_step s)
   \<and> token uuid alphabet (s\<lparr>step := step s mod max_step s\<rparr>) = token uuid alphabet s
   \<and> (port s' = port s \<and> max_step s' = max_step s \<and> step s' = step s \<longrightarrow>
        token uuid alphabet s' = token uuid alphabet s)"
proof (intro conjI impI)
  assume h: "0 \<le> port s \<and> 0 < max_step s \<and> 2 \<le> length alphabet"
  then show "token uuid alphabet s =
        Some (Inr (uuid (alphabet_encoding alphabet
          (push_bit (bit_length (max_step s)) (port s) + step s mod max_step s))))"
    by (simp add: token_value)
  from h have "0 \<le> step s mod max_step s" by simp
  moreover from h have "0 \<le> push_bit (bit_length (max_step s)) (port s)"
    by (simp add: push_bit_eq_mult)
  ultimately have n: "0 \<le> push_bit (bit_length (max_step s)) (port s) + step s mod max_step s"
    by linarith
  with h show "int_to_string
        (push_bit (bit_length (max_step s)) (port s) + step s mod max_step s) alphabet None =
        Some (Inr (alphabet_encoding alphabet
          (push_bit (bit_length (max_step s)) (port s) + step s mod max_step s)))"
    by (simp add: int_to_string_nonneg)
  from h n show "int (horner (length alphabet) (msd_digits (length alphabet)
            (nat (push_bit (bit_length (max_step s)) (port s) + step s mod max_step s))))
          = push_bit (bit_length (max_step s)) (port s) + step s mod max_step s"
    by (simp add: horner_msd_digits)
next
  show "token uuid alphabet (s\<lparr>step := step s mod max_step s\<rparr>) = token uuid alphabet s"
    by (simp add: token_def)
next
  assume "port s' = port s \<and> max_step s' = max_step s \<and> step s' = step s"
  then show "token uuid alphabet s' = token uuid alphabet s"
    by (simp add: token_def)
qed

theorem token_derivation_witness:
  "token stub_uuid shortuuid_alphabet \<lparr>port = 100, step = 70000, max_step = 0xffff\<rparr>
     = Some (Inr ''dRVn'')
   \<and> int_to_string 6558065 shortuuid_alphabet None = Some (Inr ''dRVn'')
   \<and> token stub_uuid shortuuid_alphabet \<lparr>port = 100, step = 4465, max_step = 0xffff\<rparr>
     = Some (Inr ''dRVn'')"
  using token_derivation [of "\<lparr>port = 100, step = 70000, max_step = 0xffff\<rparr>"
      shortuuid_alphabet stub_uuid "\<lparr>port = 100, step = 70000, max_step = 0xffff\<rparr>"]
  by (simp add: shortuuid_alphabet_def alphabet_encoding_def bit_length_def
      bit_length_nat.simps msd_digits.simps stub_uuid_def)

section \<open>Cache: base64, classification and extraction\<close>

subsection \<open>The base64 round trip\<close>


















subsection \<open>Substring test, errors of the extractor\<close>

lemma str_in_iff: "str_in needle hay \<longleftrightarrow> (\<exists>pre post. hay = pre @ needle @ post)"
proof (induction hay)
  case Nil
  then show ?case by auto
next
  case (Cons c cs)
  have a: "take (length needle) (c # cs) = needle \<longleftrightarrow> (\<exists>post. c # cs = needle @ post)"
    by (metis append_eq_conv_conj append_take_drop_id)
  have b: "(\<exists>pre post. c # cs = pre @ needle @ post) \<longleftrightarrow>
      (\<exists>post. c # cs = needle @ post) \<or> (\<exists>pre post. cs = pre @ needle @ post)"
  proof
    assume "\<exists>pre post. c # cs = pre @ needle @ post"
    then obtain pre post where e: "c # cs = pre @ needle @ post" by blast
    show "(\<exists>post. c # cs = needle @ post) \<or> (\<exists>pre post. cs = pre @ needle @ post)"
    proof (cases pre)
      case Nil
      with e show ?thesis by auto
    next
      case (Cons x pre')
      with e have "cs = pre' @ needle @ post" by simp
      then show ?thesis by blast
    qed
  next
    assume "(\<exists>post. c # cs = needle @ post) \<or> (\<exists>pre post. cs = pre @ needle @ post)"
    then show "\<exists>pre post. c # cs = pre @ needle @ post"
    proof
      assume "\<exists>post. c # cs = needle @ post"
      then obtain post where "c # cs = [] @ needle @ post" by auto
      then show ?thesis by blast
    next
      assume "\<exists>pre post. cs = pre @ needle @ post"
      then obtain pre post where "c # cs = (c # pre) @ needle @ post" by auto
      then show ?thesis by blast
    qed
  qed
  show ?case unfolding str_in.simps a b Cons.IH ..
qed

lemma a2b_base64_error: "a2b_base64 s q l p out = Inl e \<Longrightarrow> e = ValueError"
  by (induction s q l p out rule: a2b_base64.induct) (auto split: if_splits option.splits)

lemma urlsafe_b64decode_error: "urlsafe_b64decode m = Inl e \<Longrightarrow> e = ValueError"
  by (auto simp: urlsafe_b64decode_def split: if_splits dest: a2b_base64_error)

lemma extract_try_error:
  "extract_try l self snip = Inl e \<Longrightarrow> e = ValueError \<or> e = KeyError"
  by (auto simp: extract_try_def Let_def split: option.splits dest: urlsafe_b64decode_error)

lemma extract_try_unparseable:
  "unparseable l self snip \<longleftrightarrow> (\<exists>e. extract_try l self snip = Inl e)"
  by (auto simp: unparseable_def extract_try_def Let_def split: option.splits dest: urlsafe_b64decode_error)

lemma extract_matches_unparseable:
  "\<forall>(a, b) \<in> set ms. unparseable l self (py_slice txt (int a + 35) (int b - 7)) \<Longrightarrow>
   extract_matches l self txt ms = Inr None"
proof (induction ms)
  case Nil
  then show ?case by simp
next
  case (Cons m ms)
  obtain a b where m: "m = (a, b)" by (cases m)
  from Cons.prems m have "unparseable l self (py_slice txt (int a + 35) (int b - 7))" by simp
  then obtain e where e: "extract_try l self (py_slice txt (int a + 35) (int b - 7)) = Inl e"
    unfolding extract_try_unparseable by blast
  with extract_try_error have "e = ValueError \<or> e = KeyError" by blast
  with e Cons show ?case by (auto simp: m)
qed


lemma extract_matches_no_error: "extract_matches l self txt ms \<noteq> Inl e"
proof (induction ms)
  case Nil
  then show ?case by simp
next
  case (Cons m ms)
  obtain a b where m: "m = (a, b)" by (cases m)
  show ?case
    using Cons extract_try_error [of l self "py_slice txt (int a + 35) (int b - 7)"]
    by (auto simp: m split: sum.splits)
qed

lemma Cache_extract_error: "Cache_extract l self k r = Inl e \<longleftrightarrow>
   e = ReError \<and> re_finditer l (extract_pattern k) (response_text r) = None"
  by (auto simp: Cache_extract_def extract_matches_no_error split: option.splits)

lemma Cache_extract_value:
  "Cache_extract l self k r = Inr d \<Longrightarrow> re_finditer l (extract_pattern k) (response_text r) \<noteq> None"
  by (auto simp: Cache_extract_def split: option.splits)

lemma raise_for_status_2xx:
  "200 \<le> status_code r \<and> status_code r < 300 \<Longrightarrow> raise_for_status r = Inr ()"
  by (simp add: raise_for_status_def)

lemma cache_status_hit_iff:
  "cache_status_hit r \<longleftrightarrow>
     (\<exists>v pre post. headers r ''X-Cache-Status'' = Some v \<and> v = pre @ ''HIT'' @ post)"
proof (cases "headers r ''X-Cache-Status''")
  case None
  have "\<not> str_in ''HIT'' ''MISS''" by simp
  with None show ?thesis by (simp add: cache_status_hit_def)
next
  case (Some v)
  then show ?thesis by (simp add: cache_status_hit_def str_in_iff)
qed


text \<open>
  C8.  For a response with a 2xx status: \<^verbatim>\<open>__getitem__\<close> raises
  \<open>NotCachedException\<close> exactly when the \<^verbatim>\<open>X-Cache-Status\<close> header does not
  contain \<^verbatim>\<open>HIT\<close>, and otherwise returns what the extractor returns;
  \<^verbatim>\<open>__setitem__\<close> raises \<open>AlreadyCachedException\<close> exactly when the header
  contains \<^verbatim>\<open>HIT\<close> (the pattern built from the key being one that compiles,
  as the pattern of every token is), and otherwise returns normally.  The
  header contains \<^verbatim>\<open>HIT\<close> when it is present and its value has the
  substring; a missing header counts as \<^verbatim>\<open>MISS\<close>.
\<close>

theorem hit_miss_classification:
  assumes "200 \<le> status_code r \<and> status_code r < 300"
  shows "((getitem_response l self k r = Inl (NotCachedException k)) \<longleftrightarrow> \<not> cache_status_hit r)
     \<and> (cache_status_hit r \<longrightarrow> getitem_response l self k r = Cache_extract l self k r)
     \<and> ((\<exists>d. setitem_response l self k r = Inl (AlreadyCachedException k d)) \<longleftrightarrow>
           cache_status_hit r \<and> re_finditer l (extract_pattern k) (response_text r) \<noteq> None)
     \<and> (\<not> cache_status_hit r \<longrightarrow> setitem_response l self k r = Inr ())
     \<and> (cache_status_hit r \<longleftrightarrow>
          (\<exists>v pre post. headers r ''X-Cache-Status'' = Some v \<and> v = pre @ ''HIT'' @ post))"
proof (intro conjI)
  note ok = raise_for_status_2xx [OF assms]
  show "(getitem_response l self k r = Inl (NotCachedException k)) \<longleftrightarrow> \<not> cache_status_hit r"
    by (auto simp: getitem_response_def ok Cache_extract_error)
  show "cache_status_hit r \<longrightarrow> getitem_response l self k r = Cache_extract l self k r"
    by (simp add: getitem_response_def ok)
  show "(\<exists>d. setitem_response l self k r = Inl (AlreadyCachedException k d)) \<longleftrightarrow>
           cache_status_hit r \<and> re_finditer l (extract_pattern k) (response_text r) \<noteq> None"
    by (auto simp: setitem_response_def ok Cache_extract_error split: sum.splits if_splits
        dest: Cache_extract_value)
  show "\<not> cache_status_hit r \<longrightarrow> setitem_response l self k r = Inr ()"
    by (simp add: setitem_response_def ok)
  show "cache_status_hit r \<longleftrightarrow>
          (\<exists>v pre post. headers r ''X-Cache-Status'' = Some v \<and> v = pre @ ''HIT'' @ post)"
    by (rule cache_status_hit_iff)
qed

theorem hit_miss_classification_witness:
  "getitem_response stub_lib stub_cache ''tok''
     (stub_response_no_header ''<html></html>'')
     = Inl (NotCachedException ''tok'')
   \<and> setitem_response stub_lib stub_cache ''tok''
     (stub_response ''MISS'' ''<html></html>'')
     = Inr ()
   \<and> (\<exists>d. setitem_response stub_lib stub_cache ''tok''
     (stub_response ''HIT'' ''<html></html>'')
     = Inl (AlreadyCachedException ''tok'' d))"
  using hit_miss_classification [of "(stub_response_no_header ''<html></html>'')" stub_lib stub_cache "''tok''"]
        hit_miss_classification [of "(stub_response ''MISS'' ''<html></html>'')" stub_lib stub_cache "''tok''"]
        hit_miss_classification [of "(stub_response ''HIT'' ''<html></html>'')" stub_lib stub_cache "''tok''"]
  by (simp add: cache_status_hit_def stub_lib_def stub_finditer_def stub_response_def
      stub_response_no_header_def)

text \<open>
  C6, as the code has it.  When the response is classified as cached and no
  match yields a payload (no match at all, or every reflected snippet
  unparseable), \<^verbatim>\<open>__getitem__\<close> returns \<open>None\<close>: it returns no bytes and
  raises nothing, and in particular it does not raise
  \<open>NotCachedException\<close>, the signal of a MISS.
\<close>

theorem extraction_failure_returns_None:
  assumes "200 \<le> status_code r \<and> status_code r < 300"
      and "cache_status_hit r"
      and "re_finditer l (extract_pattern k) (response_text r) = Some ms"
      and "\<forall>(a, b) \<in> set ms.
             unparseable l self (py_slice (response_text r) (int a + 35) (int b - 7))"
  shows "getitem_response l self k r = Inr None"
  using assms
  by (simp add: getitem_response_def raise_for_status_2xx Cache_extract_def
      extract_matches_unparseable)

theorem extraction_failure_returns_None_witness:
  "getitem_response stub_lib stub_cache ''tok''
     (stub_response ''HIT'' ''No results for <code id=reflection>https://webcachetunneling.com/?q=tok&p=A</code>'')
     = Inr None"
  apply (rule extraction_failure_returns_None [where ms = "[(0, 82)]"])
     apply (simp add: stub_response_def)
    apply (simp add: cache_status_hit_def stub_response_def)
   apply (simp add: stub_lib_def stub_finditer_def extract_pattern_def py_slice_def
      stub_response_def)
  apply (simp add: unparseable_def stub_lib_def stub_urlparse_def py_slice_def stub_cache_def
      stub_response_def
      parse_qsl_def split_first_def dict_def replace_plus_def urlsafe_b64decode_def
      urlsafe_decode_translation_def table_a2b_base64_def b64_table_def)
  done

text \<open>
  The claim as the specification states it fails: a cached response with no
  reflected payload (a body with no match, or the reflection of a request
  that carried no data parameter, as a reader's probe leaves behind) makes
  \<^verbatim>\<open>__getitem__\<close> return \<open>None\<close>, not signal MISS.
\<close>

theorem extraction_failure_counterexample:
  "getitem_response stub_lib stub_cache ''tok''
     (stub_response ''HIT'' ''<html>nothing here</html>'') = Inr None
   \<and> getitem_response stub_lib stub_cache ''tok''
     (stub_response ''HIT'' ''<html>nothing here</html>'') \<noteq> Inl (NotCachedException ''tok'')
   \<and> getitem_response stub_lib stub_cache ''tok''
     (stub_response ''HIT''
        ''No results for <code id=reflection>https://webcachetunneling.com/?q=tok</code>'')
     = Inr None"
  by code_simp






section \<open>CacheReader\<close>

subsection \<open>Tokens of the stand-in sessions\<close>

lemma stub_token:
  assumes "0 \<le> p" and "0 \<le> k" and "k < 65535"
  shows "token stub_uuid shortuuid_alphabet \<lparr>port = p, step = k, max_step = 0xffff\<rparr>
           = Some (Inr (alphabet_encoding shortuuid_alphabet (p * 65536 + k)))"
proof -
  have "bit_length 65535 = 16"
    by (simp add: bit_length_def bit_length_nat.simps)
  moreover have "k mod 65535 = k" using assms by simp
  ultimately show ?thesis
    using assms token_value [of "\<lparr>port = p, step = k, max_step = 0xffff\<rparr>" shortuuid_alphabet stub_uuid]
    by (simp add: shortuuid_alphabet_def stub_uuid_def push_bit_eq_mult)
qed

lemma stub_tokens:
  "token stub_uuid shortuuid_alphabet \<lparr>port = 100, step = 0, max_step = 0xffff\<rparr> = Some (Inr ''dQ8T'')"
  "token stub_uuid shortuuid_alphabet \<lparr>port = 100, step = 1, max_step = 0xffff\<rparr> = Some (Inr ''dQ8U'')"
  "token stub_uuid shortuuid_alphabet \<lparr>port = 100, step = 2, max_step = 0xffff\<rparr> = Some (Inr ''dQ8V'')"
  "token stub_uuid shortuuid_alphabet \<lparr>port = 100, step = 5, max_step = 0xffff\<rparr> = Some (Inr ''dQ8Y'')"
  "token stub_uuid shortuuid_alphabet \<lparr>port = 7, step = 0, max_step = 0xffff\<rparr> = Some (Inr ''4VDJ'')"
  "token stub_uuid shortuuid_alphabet \<lparr>port = 7, step = 1, max_step = 0xffff\<rparr> = Some (Inr ''4VDK'')"
  by (subst stub_token; simp add: alphabet_encoding_def shortuuid_alphabet_def msd_digits.simps)+

lemma is_NotCachedException_iff: "is_NotCachedException e \<longleftrightarrow> (\<exists>t. e = NotCachedException t)"
  by (cases e) auto

lemma readinto_returns:
  assumes "readinto uuid alphabet cache_getitem b self = Some y"
  shows "\<forall>n b' self'. y = (Inr n, b', self') \<longrightarrow>
     (\<exists>tok c d. cache_getitem tok c = (Inr (Some d), cache self') \<and> d \<noteq> [] \<and>
        ((n = length d \<and> (b' = Bytearray d \<or> (\<exists>old. b = Memoryview old \<and> length d \<le> length old
                \<and> b' = Memoryview (d @ drop (length d) old))))
         \<or> (n = 0 \<and> b' = b \<and> (\<exists>old. b = Memoryview old \<and> length old < length d))))
     \<or> (n = 0 \<and> b' = b \<and> (\<exists>tok c t. cache_getitem tok c = (Inl (NotCachedException t), cache self')))"
  using assms
proof (induction rule: readinto.raw_induct[rotated 1, consumes 1])
  case (1 readinto uuid alphabet cache_getitem b self y)
  from 1 show ?case
  proof (clarsimp split: option.splits sum.splits prod.splits if_splits buffer.splits
      simp: truthy_def is_NotCachedException_iff, goal_cases)
    case 1
    then show ?case by blast
  next
    case 2
    then show ?case by blast
  next
    case 3
    then show ?case by (metis le_refl linorder_not_less)

  qed
qed

text \<open>
  C2, as the code has it.  The session is advanced when the pair is taken
  from it, before the cache is read, and a MISS does not take the advance
  back: the call returns 0, leaves the buffer as it was, and leaves the
  session at step \<open>k + 1\<close>.
\<close>

theorem reader_miss:
  assumes "token uuid alphabet (session self) = Some (Inr tok)"
      and "cache_getitem tok (cache self) = (Inl (NotCachedException t), cache')"
  shows "readinto uuid alphabet cache_getitem b self =
           Some (Inr 0, b, self\<lparr>session := (session self)\<lparr>step := step (session self) + 1\<rparr>,
                                cache := cache'\<rparr>)"
  using assms by (subst readinto.simps) (simp add: Session_next_token)

theorem reader_miss_witness:
  "readinto stub_uuid shortuuid_alphabet miss_getitem (Bytearray [])
     \<lparr>session = \<lparr>port = 100, step = 0, max_step = 0xffff\<rparr>, cache = (), heard = (),
      wrote = []\<rparr>
   = Some (Inr 0, Bytearray [],
       \<lparr>session = \<lparr>port = 100, step = 1, max_step = 0xffff\<rparr>, cache = (), heard = (),
        wrote = []\<rparr>)"
  using reader_miss [of stub_uuid shortuuid_alphabet
      "\<lparr>session = \<lparr>port = 100, step = 0, max_step = 0xffff\<rparr>, cache = (), heard = (),
        wrote = []\<rparr>" "''dQ8T''" miss_getitem "''dQ8T''" "()" "Bytearray []"]
  by (simp add: stub_tokens miss_getitem_def)

text \<open>
  The claim as the specification states it fails: after a MISS at step 5 the
  session stands at step 6, not 5.
\<close>

theorem reader_miss_counterexample:
  "readinto stub_uuid shortuuid_alphabet miss_getitem (Memoryview [0, 0])
     \<lparr>session = \<lparr>port = 100, step = 5, max_step = 0xffff\<rparr>, cache = (), heard = (),
      wrote = []\<rparr>
   = Some (Inr 0, Memoryview [0, 0],
       \<lparr>session = \<lparr>port = 100, step = 6, max_step = 0xffff\<rparr>, cache = (), heard = (),
        wrote = []\<rparr>)"
  by (subst readinto.simps)
     (simp add: Session_next_def stub_tokens miss_getitem_def)

text \<open>
  C3.  A \<^verbatim>\<open>memoryview\<close> shorter than the payload found at the current token:
  the call returns 0, writes nothing into the buffer, and the session is as
  it was before the call.
\<close>

theorem size_gated_rewind:
  assumes "token uuid alphabet (session self) = Some (Inr tok)"
      and "cache_getitem tok (cache self) = (Inr (Some d), cache')"
      and "length d > length m"
  shows "readinto uuid alphabet cache_getitem (Memoryview m) self =
           Some (Inr 0, Memoryview m, self\<lparr>cache := cache'\<rparr>)"
  using assms by (subst readinto.simps) (auto simp add: Session_next_token truthy_def)

theorem size_gated_rewind_witness:
  "readinto stub_uuid shortuuid_alphabet table_getitem (Memoryview (replicate 16 0))
     \<lparr>session = \<lparr>port = 100, step = 0, max_step = 0xffff\<rparr>,
      cache = [(''dQ8T'', Some (replicate 40 65))], heard = (), wrote = []\<rparr>
   = Some (Inr 0, Memoryview (replicate 16 0),
       \<lparr>session = \<lparr>port = 100, step = 0, max_step = 0xffff\<rparr>,
        cache = [(''dQ8T'', Some (replicate 40 65))], heard = (), wrote = []\<rparr>)"
  using size_gated_rewind [of stub_uuid shortuuid_alphabet
      "\<lparr>session = \<lparr>port = 100, step = 0, max_step = 0xffff\<rparr>,
        cache = [(''dQ8T'', Some (replicate 40 65))], heard = (), wrote = []\<rparr>"
      "''dQ8T''" table_getitem "replicate 40 65" "[(''dQ8T'', Some (replicate 40 65))]"
      "replicate 16 0"]
  by (simp add: stub_tokens table_getitem_def)

text \<open>
  C10.  A \<^verbatim>\<open>bytearray\<close> destination and a non-empty payload at the current
  token: whatever the length of the buffer was, its contents become the
  payload, the session is advanced, and the call returns the length of the
  payload.
\<close>

theorem bytearray_read:
  assumes "token uuid alphabet (session self) = Some (Inr tok)"
      and "cache_getitem tok (cache self) = (Inr (Some d), cache')"
      and "d \<noteq> []"
  shows "readinto uuid alphabet cache_getitem (Bytearray old) self =
           Some (Inr (length d), Bytearray d,
                 self\<lparr>session := (session self)\<lparr>step := step (session self) + 1\<rparr>,
                      cache := cache'\<rparr>)"
  using assms by (subst readinto.simps) (simp add: Session_next_token truthy_def)

theorem bytearray_read_witness:
  "readinto stub_uuid shortuuid_alphabet table_getitem (Bytearray [1, 2])
     \<lparr>session = \<lparr>port = 100, step = 0, max_step = 0xffff\<rparr>,
      cache = [(''dQ8T'', Some [72, 101, 108, 108, 111])], heard = (), wrote = []\<rparr>
   = Some (Inr 5, Bytearray [72, 101, 108, 108, 111],
       \<lparr>session = \<lparr>port = 100, step = 1, max_step = 0xffff\<rparr>,
        cache = [(''dQ8T'', Some [72, 101, 108, 108, 111])], heard = (), wrote = []\<rparr>)"
  using bytearray_read [of stub_uuid shortuuid_alphabet
      "\<lparr>session = \<lparr>port = 100, step = 0, max_step = 0xffff\<rparr>,
        cache = [(''dQ8T'', Some [72, 101, 108, 108, 111])], heard = (), wrote = []\<rparr>"
      "''dQ8T''" table_getitem "[72, 101, 108, 108, 111]"
      "[(''dQ8T'', Some [72, 101, 108, 108, 111])]" "[1, 2]"]
  by (simp add: stub_tokens table_getitem_def)

text \<open>
  C9.  A probe that finds an empty or absent payload neither returns nor
  ends the loop: the call goes on as a call from the next step would.  So a
  call that returns normally was stopped by a non-empty payload (which it
  delivered, or which did not fit the \<^verbatim>\<open>memoryview\<close>) or by a MISS.
\<close>

theorem empty_payload_skipped:
  "(token uuid alphabet (session self) = Some (Inr tok)
      \<and> cache_getitem tok (cache self) = (Inr data, cache')
      \<and> (data = None \<or> data = Some []) \<longrightarrow>
    readinto uuid alphabet cache_getitem b self =
      readinto uuid alphabet cache_getitem b
        (self\<lparr>session := (session self)\<lparr>step := step (session self) + 1\<rparr>, cache := cache'\<rparr>))
   \<and> (readinto uuid alphabet cache_getitem b self = Some (Inr n, b', self') \<longrightarrow>
       (\<exists>tok c d. cache_getitem tok c = (Inr (Some d), cache self') \<and> d \<noteq> [] \<and>
          ((n = length d \<and> (b' = Bytearray d \<or>
               (\<exists>old. b = Memoryview old \<and> length d \<le> length old
                  \<and> b' = Memoryview (d @ drop (length d) old))))
           \<or> (n = 0 \<and> b' = b \<and> (\<exists>old. b = Memoryview old \<and> length old < length d))))
       \<or> (n = 0 \<and> b' = b
            \<and> (\<exists>tok c t. cache_getitem tok c = (Inl (NotCachedException t), cache self'))))"
proof (intro conjI impI)
  assume "token uuid alphabet (session self) = Some (Inr tok)
      \<and> cache_getitem tok (cache self) = (Inr data, cache')
      \<and> (data = None \<or> data = Some [])"
  then show "readinto uuid alphabet cache_getitem b self =
      readinto uuid alphabet cache_getitem b
        (self\<lparr>session := (session self)\<lparr>step := step (session self) + 1\<rparr>, cache := cache'\<rparr>)"
    by (subst readinto.simps) (auto simp add: Session_next_token truthy_def)
next
  assume "readinto uuid alphabet cache_getitem b self = Some (Inr n, b', self')"
  from readinto_returns [OF this] show
    "(\<exists>tok c d. cache_getitem tok c = (Inr (Some d), cache self') \<and> d \<noteq> [] \<and>
          ((n = length d \<and> (b' = Bytearray d \<or>
               (\<exists>old. b = Memoryview old \<and> length d \<le> length old
                  \<and> b' = Memoryview (d @ drop (length d) old))))
           \<or> (n = 0 \<and> b' = b \<and> (\<exists>old. b = Memoryview old \<and> length old < length d))))
       \<or> (n = 0 \<and> b' = b
            \<and> (\<exists>tok c t. cache_getitem tok c = (Inl (NotCachedException t), cache self')))"
    by blast
qed

theorem empty_payload_skipped_witness:
  "readinto stub_uuid shortuuid_alphabet table_getitem (Bytearray [])
     \<lparr>session = \<lparr>port = 100, step = 0, max_step = 0xffff\<rparr>,
      cache = [(''dQ8T'', None), (''dQ8U'', Some []), (''dQ8V'', Some [104, 105])],
      heard = (), wrote = []\<rparr>
   = Some (Inr 2, Bytearray [104, 105],
       \<lparr>session = \<lparr>port = 100, step = 3, max_step = 0xffff\<rparr>,
        cache = [(''dQ8T'', None), (''dQ8U'', Some []), (''dQ8V'', Some [104, 105])],
        heard = (), wrote = []\<rparr>)
   \<and> (\<exists>tok c d. table_getitem tok c
          = (Inr (Some d), [(''dQ8T'', None), (''dQ8U'', Some []), (''dQ8V'', Some [104, 105])])
        \<and> d \<noteq> [] \<and> length d = 2)"
proof -
  let ?table = "[(''dQ8T'', None), (''dQ8U'', Some []), (''dQ8V'', Some [104, 105 :: byte])]"
  let ?at = "\<lambda>k. \<lparr>session = \<lparr>port = 100, step = k, max_step = 0xffff\<rparr>, cache = ?table,
      heard = (), wrote = []\<rparr>"
  have s0: "readinto stub_uuid shortuuid_alphabet table_getitem (Bytearray []) (?at 0)
      = readinto stub_uuid shortuuid_alphabet table_getitem (Bytearray []) (?at 1)"
    using empty_payload_skipped [where uuid = stub_uuid and alphabet = shortuuid_alphabet
        and self = "?at 0" and tok = "''dQ8T''" and cache_getitem = table_getitem
        and data = None and cache' = ?table and b = "Bytearray []", THEN conjunct1]
    by (simp add: stub_tokens table_getitem_def)
  have s1: "readinto stub_uuid shortuuid_alphabet table_getitem (Bytearray []) (?at 1)
      = readinto stub_uuid shortuuid_alphabet table_getitem (Bytearray []) (?at 2)"
    using empty_payload_skipped [where uuid = stub_uuid and alphabet = shortuuid_alphabet
        and self = "?at 1" and tok = "''dQ8U''" and cache_getitem = table_getitem
        and data = "Some []" and cache' = ?table and b = "Bytearray []", THEN conjunct1]
    by (simp add: stub_tokens table_getitem_def)
  have s2: "readinto stub_uuid shortuuid_alphabet table_getitem (Bytearray []) (?at 2)
      = Some (Inr 2, Bytearray [104, 105], ?at 3)"
    by (subst readinto.simps)
       (simp add: Session_next_def stub_tokens table_getitem_def truthy_def)
  have r: "readinto stub_uuid shortuuid_alphabet table_getitem (Bytearray []) (?at 0)
      = Some (Inr 2, Bytearray [104, 105], ?at 3)"
    using s0 s1 s2 by simp
  from empty_payload_skipped [where uuid = stub_uuid and alphabet = shortuuid_alphabet
        and self = "?at 0" and cache_getitem = table_getitem and b = "Bytearray []"
        and n = 2 and b' = "Bytearray [104, 105]" and self' = "?at 3",
        THEN conjunct2, THEN mp, OF r]
  have "\<exists>tok c d. table_getitem tok c = (Inr (Some d), ?table) \<and> d \<noteq> [] \<and> length d = 2"
    by (elim disjE exE conjE) (simp_all, blast)
  with r show ?thesis by simp
qed

section \<open>CacheWriter\<close>







text \<open>
  C5, as the code has it.  A set that raises \<open>AlreadyCachedException\<close> makes
  the writer advance the session and try the same chunk at the next token;
  before that it hands the data found to every consumer, in the order of
  registration, when the data is not empty.  Data that is \<open>None\<close> or empty
  is handed to no consumer.
\<close>

theorem writer_collision:
  assumes "token uuid alphabet (session self) = Some (Inr tok)"
      and "cache_setitem tok chunk (cache self) = (Inl (AlreadyCachedException t found), cache')"
  shows "write_chunk uuid alphabet cache_setitem consumers chunk self =
         write_chunk uuid alphabet cache_setitem consumers chunk
           (self\<lparr>session := (session self)\<lparr>step := step (session self) + 1\<rparr>,
                 cache := cache',
                 heard := (case found of
                             None \<Rightarrow> heard self
                           | Some v \<Rightarrow>
                               if v = [] then heard self
                               else fold (\<lambda>func. func v) consumers (heard self))\<rparr>)"
  using assms
  by (subst write_chunk.simps)
     (auto simp add: Session_next_token truthy_def notify_def split: option.splits)

theorem writer_collision_witness:
  "write_chunk stub_uuid shortuuid_alphabet script_setitem [append_consumer, append_consumer] [66]
     \<lparr>session = \<lparr>port = 7, step = 0, max_step = 0xffff\<rparr>, cache = ([Some [65]], []),
      heard = [], wrote = []\<rparr>
   = Some (None,
       \<lparr>session = \<lparr>port = 7, step = 2, max_step = 0xffff\<rparr>, cache = ([], [1]),
        heard = [[65], [65]], wrote = [(1, [66])]\<rparr>)"
proof -
  have "write_chunk stub_uuid shortuuid_alphabet script_setitem
          [append_consumer, append_consumer] [66]
          \<lparr>session = \<lparr>port = 7, step = 0, max_step = 0xffff\<rparr>, cache = ([Some [65]], []),
           heard = [], wrote = []\<rparr>
      = write_chunk stub_uuid shortuuid_alphabet script_setitem
          [append_consumer, append_consumer] [66]
          \<lparr>session = \<lparr>port = 7, step = 1, max_step = 0xffff\<rparr>, cache = ([], []),
           heard = [[65], [65]], wrote = []\<rparr>"
    using writer_collision [where uuid = stub_uuid and alphabet = shortuuid_alphabet
        and self = "\<lparr>session = \<lparr>port = 7, step = 0, max_step = 0xffff\<rparr>,
              cache = ([Some [65]], []), heard = [], wrote = []\<rparr>"
        and tok = "''4VDJ''" and cache_setitem = script_setitem and chunk = "[66]"
        and t = "''4VDJ''" and found = "Some [65]" and cache' = "([], [])"
        and consumers = "[append_consumer, append_consumer]"]
    by (simp add: stub_tokens script_setitem_def append_consumer_def)
  moreover have "write_chunk stub_uuid shortuuid_alphabet script_setitem
          [append_consumer, append_consumer] [66]
          \<lparr>session = \<lparr>port = 7, step = 1, max_step = 0xffff\<rparr>, cache = ([], []),
           heard = [[65], [65]], wrote = []\<rparr>
      = Some (None,
          \<lparr>session = \<lparr>port = 7, step = 2, max_step = 0xffff\<rparr>, cache = ([], [1]),
           heard = [[65], [65]], wrote = [(1, [66])]\<rparr>)"
    by (subst write_chunk.simps)
       (simp add: Session_next_def stub_tokens script_setitem_def)
  ultimately show ?thesis by simp
qed

text \<open>
  The claim as the specification states it fails for a colliding value that
  is empty or \<open>None\<close>: the set at step 0 collides, the writer retries at step
  1, and the consumer has been handed nothing.
\<close>

theorem writer_collision_counterexample:
  "write_chunk stub_uuid shortuuid_alphabet script_setitem [append_consumer] [66]
     \<lparr>session = \<lparr>port = 7, step = 0, max_step = 0xffff\<rparr>, cache = ([Some []], []),
      heard = [], wrote = []\<rparr>
   = Some (None,
       \<lparr>session = \<lparr>port = 7, step = 2, max_step = 0xffff\<rparr>, cache = ([], [1]),
        heard = [], wrote = [(1, [66])]\<rparr>)
   \<and> write_chunk stub_uuid shortuuid_alphabet script_setitem [append_consumer] [66]
     \<lparr>session = \<lparr>port = 7, step = 0, max_step = 0xffff\<rparr>, cache = ([None], []),
      heard = [], wrote = []\<rparr>
   = Some (None,
       \<lparr>session = \<lparr>port = 7, step = 2, max_step = 0xffff\<rparr>, cache = ([], [1]),
        heard = [], wrote = [(1, [66])]\<rparr>)"
  by (subst write_chunk.simps, simp add: Session_next_def stub_tokens script_setitem_def truthy_def,
      subst write_chunk.simps, simp add: Session_next_def stub_tokens script_setitem_def truthy_def)+

subsection \<open>Chunks\<close>
















section \<open>Scenarios over the stand-in server\<close>

text \<open>
  The cache class, the reader and the writer put together over the reflecting
  server: one peer writes two bytes on channel 7 and another, with a session
  of its own, reads them; a reader that finds nothing consumes the token it
  probed, and a writer that comes to that token collides with an entry that
  has no payload, hands nothing to its consumer, and writes at the next one.
\<close>

lemma set_fresh:
  "Cache_setitem stub_http_get stub_lib stub_cache ''4VDJ'' [104, 105] []
     = (Inr (), [(''4VDJ'',
          ''No results for <code id=reflection>https://webcachetunneling.com/?q=4VDJ&p=aGk%3D</code>'')])"
  by code_simp

lemma get_hit:
  "Cache_getitem stub_http_get stub_lib stub_cache ''4VDJ''
     [(''4VDJ'',
          ''No results for <code id=reflection>https://webcachetunneling.com/?q=4VDJ&p=aGk%3D</code>'')]
     = (Inr (Some [104, 105]), [(''4VDJ'',
          ''No results for <code id=reflection>https://webcachetunneling.com/?q=4VDJ&p=aGk%3D</code>'')])"
  by code_simp

lemma get_miss:
  "Cache_getitem stub_http_get stub_lib stub_cache ''4VDK''
     [(''4VDJ'',
          ''No results for <code id=reflection>https://webcachetunneling.com/?q=4VDJ&p=aGk%3D</code>'')]
     = (Inl (NotCachedException ''4VDK''), [(''4VDJ'',
          ''No results for <code id=reflection>https://webcachetunneling.com/?q=4VDJ&p=aGk%3D</code>''),
         (''4VDK'',
          ''No results for <code id=reflection>https://webcachetunneling.com/?q=4VDK</code>'')])"
  by code_simp

lemma set_burned:
  "Cache_setitem stub_http_get stub_lib stub_cache ''4VDK'' [66]
      [(''4VDK'',
          ''No results for <code id=reflection>https://webcachetunneling.com/?q=4VDK</code>'')]
     = (Inl (AlreadyCachedException ''4VDK'' None), [
         (''4VDK'',
          ''No results for <code id=reflection>https://webcachetunneling.com/?q=4VDK</code>'')])"
  by code_simp


lemma chunks_small: "chunks_of 1024 [104, 105] = [[104, 105]]"
  by code_simp

lemma peer_writes:
  "CacheWriter_write stub_uuid shortuuid_alphabet
     (Cache_setitem stub_http_get stub_lib stub_cache) [] 1024 [104, 105]
     \<lparr>session = \<lparr>port = 7, step = 0, max_step = 0xffff\<rparr>, cache = [], heard = (), wrote = []\<rparr>
   = Some (Inr 2,
       \<lparr>session = \<lparr>port = 7, step = 1, max_step = 0xffff\<rparr>,
        cache = [(''4VDJ'',
          ''No results for <code id=reflection>https://webcachetunneling.com/?q=4VDJ&p=aGk%3D</code>'')],
        heard = (), wrote = [(0, [104, 105])]\<rparr>)"
  by (simp add: CacheWriter_write_def chunks_small,
      subst write_chunk.simps,
      simp add: Session_next_def stub_tokens set_fresh)

lemma peer_reads:
  "readinto stub_uuid shortuuid_alphabet
     (Cache_getitem stub_http_get stub_lib stub_cache) (Bytearray [])
     \<lparr>session = \<lparr>port = 7, step = 0, max_step = 0xffff\<rparr>,
      cache = [(''4VDJ'',
          ''No results for <code id=reflection>https://webcachetunneling.com/?q=4VDJ&p=aGk%3D</code>'')],
      heard = (), wrote = []\<rparr>
   = Some (Inr 2, Bytearray [104, 105],
       \<lparr>session = \<lparr>port = 7, step = 1, max_step = 0xffff\<rparr>,
        cache = [(''4VDJ'',
          ''No results for <code id=reflection>https://webcachetunneling.com/?q=4VDJ&p=aGk%3D</code>'')],
        heard = (), wrote = []\<rparr>)"
  by (subst readinto.simps)
     (simp add: Session_next_def stub_tokens get_hit truthy_def)


lemma get_fresh:
  "Cache_getitem stub_http_get stub_lib stub_cache ''4VDJ'' []
     = (Inl (NotCachedException ''4VDJ''),
        [(''4VDJ'', ''No results for <code id=reflection>https://webcachetunneling.com/?q=4VDJ</code>'')])"
  by code_simp

lemma set_after_probe:
  "Cache_setitem stub_http_get stub_lib stub_cache ''4VDJ'' [66]
     [(''4VDJ'', ''No results for <code id=reflection>https://webcachetunneling.com/?q=4VDJ</code>'')]
     = (Inl (AlreadyCachedException ''4VDJ'' None),
        [(''4VDJ'', ''No results for <code id=reflection>https://webcachetunneling.com/?q=4VDJ</code>'')])"
  by code_simp

lemma set_next:
  "Cache_setitem stub_http_get stub_lib stub_cache ''4VDK'' [66]
     [(''4VDJ'', ''No results for <code id=reflection>https://webcachetunneling.com/?q=4VDJ</code>'')]
     = (Inr (),
        [(''4VDJ'', ''No results for <code id=reflection>https://webcachetunneling.com/?q=4VDJ</code>''),
         (''4VDK'', ''No results for <code id=reflection>https://webcachetunneling.com/?q=4VDK&p=Qg%3D%3D</code>'')])"
  by code_simp

lemma probe_consumes_token:
  "readinto stub_uuid shortuuid_alphabet
     (Cache_getitem stub_http_get stub_lib stub_cache) (Bytearray [])
     \<lparr>session = \<lparr>port = 7, step = 0, max_step = 0xffff\<rparr>, cache = [], heard = [], wrote = []\<rparr>
   = Some (Inr 0, Bytearray [],
       \<lparr>session = \<lparr>port = 7, step = 1, max_step = 0xffff\<rparr>,
        cache = [(''4VDJ'',
          ''No results for <code id=reflection>https://webcachetunneling.com/?q=4VDJ</code>'')],
        heard = [], wrote = []\<rparr>)"
  by (subst readinto.simps)
     (simp add: Session_next_def stub_tokens get_fresh)

lemma write_at_consumed_token:
  "write_chunk stub_uuid shortuuid_alphabet
     (Cache_setitem stub_http_get stub_lib stub_cache) [append_consumer] [66]
     \<lparr>session = \<lparr>port = 7, step = 0, max_step = 0xffff\<rparr>,
      cache = [(''4VDJ'',
          ''No results for <code id=reflection>https://webcachetunneling.com/?q=4VDJ</code>'')],
      heard = [], wrote = []\<rparr>
   = Some (None,
       \<lparr>session = \<lparr>port = 7, step = 2, max_step = 0xffff\<rparr>,
        cache = [(''4VDJ'',
          ''No results for <code id=reflection>https://webcachetunneling.com/?q=4VDJ</code>''),
         (''4VDK'',
          ''No results for <code id=reflection>https://webcachetunneling.com/?q=4VDK&p=Qg%3D%3D</code>'')],
        heard = [], wrote = [(1, [66])]\<rparr>)"
  by (subst write_chunk.simps,
      simp add: Session_next_def stub_tokens set_after_probe truthy_def,
      subst write_chunk.simps,
      simp add: Session_next_def stub_tokens set_next)

end
